theory Spec2Isabelle
  imports Complex_Main
begin

section \<open>Numbers and failures of the Python source\<close>

text \<open>
  The library computes on Python floats. A float is modelled by the real number it
  stands for: rounding, overflow, infinities and NaN are outside the model. What is
  inside the model is every way the source leaves a function without a result: its own
  \<^verbatim>\<open>raise ValueError(...)\<close> statements, the \<^verbatim>\<open>ValueError\<close> of
  \<^verbatim>\<open>math.sqrt\<close> on a negative argument, \<^verbatim>\<open>ZeroDivisionError\<close>, the \<^verbatim>\<open>TypeError\<close> of
  comparing a complex number, and \<^verbatim>\<open>AttributeError\<close>. An optional argument with
  default \<^verbatim>\<open>None\<close> is an \<open>option\<close>.
\<close>

datatype error =
    Ag_required              \<comment> \<open>\<^verbatim>\<open>ValueError('Ag must be provided if Nu is not zero.')\<close>\<close>
  | fy_not_positive real     \<comment> \<open>\<^verbatim>\<open>ValueError(f'fy must be greater than 0, got {fy}')\<close>\<close>
  | fu_not_positive real     \<comment> \<open>\<^verbatim>\<open>ValueError(f'fu must be greater than 0, got {fu}')\<close>\<close>
  | gamma_s_below_one real   \<comment> \<open>\<^verbatim>\<open>ValueError(f'gamma_s must be greater than or equal to 1, got {gamma_s}')\<close>\<close>
  | math_domain_error        \<comment> \<open>\<^verbatim>\<open>ValueError('math domain error')\<close>, raised inside \<^verbatim>\<open>math.sqrt\<close>\<close>
  | ZeroDivisionError
  | TypeError
  | AttributeError

text \<open>The validation errors are the ones the functions raise by their own statements.\<close>

fun is_validation_error :: "error \<Rightarrow> bool" where
  "is_validation_error Ag_required = True"
| "is_validation_error (fy_not_positive v) = True"
| "is_validation_error (fu_not_positive v) = True"
| "is_validation_error (gamma_s_below_one v) = True"
| "is_validation_error e = False"

definition fails_validation :: "error + 'a \<Rightarrow> bool" where
  "fails_validation r = (case r of Inl e \<Rightarrow> is_validation_error e | Inr v \<Rightarrow> False)"

definition bind :: "error + 'a \<Rightarrow> ('a \<Rightarrow> error + 'b) \<Rightarrow> error + 'b" where
  "bind m f = (case m of Inl e \<Rightarrow> Inl e | Inr v \<Rightarrow> f v)"

text \<open>\<^verbatim>\<open>math.sqrt(x)\<close> and float division \<^verbatim>\<open>a / b\<close>.\<close>

definition py_sqrt :: "real \<Rightarrow> error + real" where
  "py_sqrt x = (if x < 0 then Inl math_domain_error else Inr (sqrt x))"

definition py_div :: "real \<Rightarrow> real \<Rightarrow> error + real" where
  "py_div a b = (if b = 0 then Inl ZeroDivisionError else Inr (a / b))"

text \<open>
  A float raised to a fractional power is a float for a base that is not negative and a
  complex number for a negative base, so an intermediate value is a float or a complex
  number. Arithmetic between the two gives a complex number; an order comparison with a
  complex operand raises \<^verbatim>\<open>TypeError\<close>.
\<close>

datatype pynum = PFloat real | PComplex complex

fun num_mul :: "pynum \<Rightarrow> pynum \<Rightarrow> pynum" where
  "num_mul (PFloat a) (PFloat b) = PFloat (a * b)"
| "num_mul (PFloat a) (PComplex w) = PComplex (of_real a * w)"
| "num_mul (PComplex z) (PFloat b) = PComplex (z * of_real b)"
| "num_mul (PComplex z) (PComplex w) = PComplex (z * w)"

fun num_add :: "pynum \<Rightarrow> pynum \<Rightarrow> pynum" where
  "num_add (PFloat a) (PFloat b) = PFloat (a + b)"
| "num_add (PFloat a) (PComplex w) = PComplex (of_real a + w)"
| "num_add (PComplex z) (PFloat b) = PComplex (z + of_real b)"
| "num_add (PComplex z) (PComplex w) = PComplex (z + w)"

text \<open>
  \<^verbatim>\<open>x ** (1 / 3)\<close>: for a negative base the result is the complex number of modulus
  \<open>\<bar>x\<bar> ** (1 / 3)\<close> and argument \<open>pi / 3\<close>; a zero base gives zero.
\<close>

definition pow_third :: "real \<Rightarrow> pynum" where
  "pow_third x =
     (if x < 0 then PComplex (rcis (\<bar>x\<bar> powr (1 / 3)) (pi * (1 / 3)))
      else PFloat (x powr (1 / 3)))"

text \<open>
  \<^verbatim>\<open>max(a, b)\<close> returns \<open>b\<close> when \<open>b > a\<close> and \<open>a\<close> otherwise; \<^verbatim>\<open>min(a, b)\<close>
  returns \<open>b\<close> when \<open>b < a\<close> and \<open>a\<close> otherwise. Both compare their arguments.
\<close>

fun py_max :: "pynum \<Rightarrow> pynum \<Rightarrow> error + real" where
  "py_max (PFloat a) (PFloat b) = Inr (if b > a then b else a)"
| "py_max x y = Inl TypeError"

fun py_min :: "pynum \<Rightarrow> pynum \<Rightarrow> error + real" where
  "py_min (PFloat a) (PFloat b) = Inr (if b < a then b else a)"
| "py_min x y = Inl TypeError"

section \<open>Reinforcement: design strengths\<close>

text \<open>\<^verbatim>\<open>fyd(fy, gamma_s)\<close> and \<^verbatim>\<open>fud(fu, gamma_s)\<close> of the ACI 318-19 module.\<close>

definition fyd :: "real \<Rightarrow> real \<Rightarrow> error + real" where
  "fyd fy gamma_s =
     (if fy \<le> 0 then Inl (fy_not_positive fy)
      else if gamma_s < 1 then Inl (gamma_s_below_one gamma_s)
      else Inr (fy / gamma_s))"

definition fud :: "real \<Rightarrow> real \<Rightarrow> error + real" where
  "fud fu gamma_s =
     (if fu \<le> 0 then Inl (fu_not_positive fu)
      else if gamma_s < 1 then Inl (gamma_s_below_one gamma_s)
      else Inr (fu / gamma_s))"

section \<open>Concrete: modulus of elasticity and modulus of rupture\<close>

text \<open>
  \<^verbatim>\<open>Ec(f_c, w_c)\<close>: \<^verbatim>\<open>w_c ** 1.5\<close> is evaluated only for \<open>90 \<le> w_c \<le> 160\<close>, a positive
  base, where it is the real power; the square root is taken after it.
\<close>

definition Ec :: "real \<Rightarrow> real \<Rightarrow> error + real" where
  "Ec f_c w_c =
     (if 90 \<le> w_c \<and> w_c \<le> 160
      then bind (py_sqrt f_c) (\<lambda>s. Inr (33 * (w_c powr 1.5) * s))
      else bind (py_sqrt f_c) (\<lambda>s. Inr (57000 * s)))"

definition f_r :: "real \<Rightarrow> real \<Rightarrow> error + real" where
  "f_r f_c lambda = bind (py_sqrt f_c) (\<lambda>s. Inr (lambda * 7.5 * s))"

section \<open>One-way shear strength\<close>

record shear_result =
  Vc :: real
  Vn :: real
  phi :: real
  lambda_s :: real

text \<open>Size effect factor: \<^verbatim>\<open>min(math.sqrt(2 / (1 + d / 10)), 1.0)\<close>.\<close>

definition size_effect_factor :: "real \<Rightarrow> error + real" where
  "size_effect_factor d =
     bind (py_div 2 (1 + d / 10)) (\<lambda>q.
     bind (py_sqrt q) (\<lambda>s.
     Inr (if 1 < s then 1 else s)))"

text \<open>
  Table 22.5.5.1, sections with minimum shear reinforcement: \<open>Vc_a\<close> is computed first
  (its square root may fail), then \<open>Vc_b\<close> (its division may fail), then the larger
  of the two is taken.
\<close>

definition Vc_with_min :: "real \<Rightarrow> real \<Rightarrow> real \<Rightarrow> real \<Rightarrow> real \<Rightarrow> error + pynum" where
  "Vc_with_min f_c bw d Av lambda_concrete =
     bind (py_sqrt f_c) (\<lambda>s.
     let Vc_a = 2 * lambda_concrete * s * bw * d in
     bind (py_div Av (bw * d)) (\<lambda>q.
     let Vc_b = num_mul (num_mul (num_mul (num_mul (PFloat (8 * lambda_concrete))
                  (pow_third q)) (PFloat s)) (PFloat bw)) (PFloat d) in
     bind (py_max (PFloat Vc_a) Vc_b) (\<lambda>m. Inr (PFloat m))))"

text \<open>
  Sections without minimum shear reinforcement: \<open>rho_w\<close> is \<open>Av_min / (bw * d)\<close> for a
  truthy \<open>Av_min\<close> (neither \<^verbatim>\<open>None\<close> nor zero) and \<open>0\<close> otherwise; the power is taken
  before the square root.
\<close>

definition Vc_without_min ::
  "real \<Rightarrow> real \<Rightarrow> real \<Rightarrow> real option \<Rightarrow> real \<Rightarrow> real \<Rightarrow> error + pynum" where
  "Vc_without_min f_c bw d Av_min lambda_concrete ls =
     bind (case Av_min of
             None \<Rightarrow> Inr 0
           | Some a \<Rightarrow> if a \<noteq> 0 then py_div a (bw * d) else Inr 0) (\<lambda>rho_w.
     let p = pow_third rho_w in
     bind (py_sqrt f_c) (\<lambda>s.
     Inr (num_mul (num_mul (num_mul (num_mul (PFloat (8 * ls * lambda_concrete))
            p) (PFloat s)) (PFloat bw)) (PFloat d))))"

text \<open>The branch selection \<^verbatim>\<open>if Av_min is not None and Av_min >= 0\<close>.\<close>

definition Vc_table ::
  "real \<Rightarrow> real \<Rightarrow> real \<Rightarrow> real option \<Rightarrow> real \<Rightarrow> real \<Rightarrow> error + pynum" where
  "Vc_table f_c bw d Av_min lambda_concrete ls =
     (case Av_min of
        Some a \<Rightarrow>
          if a \<ge> 0 then Vc_with_min f_c bw d a lambda_concrete
          else Vc_without_min f_c bw d Av_min lambda_concrete ls
      | None \<Rightarrow> Vc_without_min f_c bw d Av_min lambda_concrete ls)"

text \<open>
  \<^verbatim>\<open>min(Nu / (6 * Ag), 0.05 * f_c) if Nu and Ag else 0\<close>: the division is reached only
  with \<open>Ag\<close> truthy, so its divisor is not zero.
\<close>

definition Nu_term :: "real \<Rightarrow> real option \<Rightarrow> real \<Rightarrow> real" where
  "Nu_term Nu Ag f_c =
     (case Ag of
        None \<Rightarrow> 0
      | Some ag \<Rightarrow>
          if Nu \<noteq> 0 \<and> ag \<noteq> 0
          then (let a = Nu / (6 * ag); b = 0.05 * f_c in if b < a then b else a)
          else 0)"

definition calc_shear_strength ::
  "real \<Rightarrow> real \<Rightarrow> real \<Rightarrow> real \<Rightarrow> real option \<Rightarrow> real option \<Rightarrow> real \<Rightarrow> real option
     \<Rightarrow> error + shear_result" where
  "calc_shear_strength f_c bw d Nu Ag Av_min lambda_concrete phi_arg =
     (if Nu \<noteq> 0 \<and> Ag = None then Inl Ag_required
      else
        bind (size_effect_factor d) (\<lambda>ls.
        bind (Vc_table f_c bw d Av_min lambda_concrete ls) (\<lambda>Vc0.
        let Vc1 = num_add Vc0 (PFloat (Nu_term Nu Ag f_c * bw * d)) in
        bind (py_sqrt f_c) (\<lambda>s.
        let Vc_max = 5 * lambda_concrete * s * bw * d in
        bind (py_min Vc1 (PFloat Vc_max)) (\<lambda>Vc2.
        let ph = (case phi_arg of None \<Rightarrow> 0.75 | Some p \<Rightarrow> p) in
        Inr \<lparr>Vc = Vc2, Vn = ph * Vc2, phi = ph, lambda_s = ls\<rparr>)))))"

text \<open>
  The failures that arithmetic can cause, as opposed to the validation errors.
\<close>

definition arithmetic_error :: "error \<Rightarrow> bool" where
  "arithmetic_error e \<longleftrightarrow> e = math_domain_error \<or> e = ZeroDivisionError \<or> e = TypeError"

section \<open>The concrete facade \<^verbatim>\<open>ConcreteACI318_19\<close>\<close>

text \<open>
  The object holds the private attributes \<^verbatim>\<open>_fc\<close>, \<^verbatim>\<open>_fct\<close>, \<^verbatim>\<open>_Ec\<close> and
  \<^verbatim>\<open>_eps_cu\<close>, each \<^verbatim>\<open>None\<close> in the class body. A getter returns its result (or the
  exception it raises) together with the object after the call; a setter returns the
  object after the assignment.
\<close>

record concrete_facade =
  attr_fc :: "real option"
  attr_fct :: "real option"
  attr_Ec :: "real option"
  attr_eps_cu :: "real option"

text \<open>
  \<^verbatim>\<open>aci318_19.Ec(self._fc)\<close>: the unit weight has its default 145, and a \<^verbatim>\<open>_fc\<close> that
  is \<^verbatim>\<open>None\<close> makes \<^verbatim>\<open>math.sqrt\<close> raise \<^verbatim>\<open>TypeError\<close>.
\<close>

definition module_Ec :: "real option \<Rightarrow> error + real" where
  "module_Ec fc = (case fc of None \<Rightarrow> Inl TypeError | Some f \<Rightarrow> Ec f 145)"

definition get_Ec :: "concrete_facade \<Rightarrow> (error + real) \<times> concrete_facade" where
  "get_Ec s =
     (case attr_Ec s of
        None \<Rightarrow>
          (case module_Ec (attr_fc s) of
             Inl e \<Rightarrow> (Inl e, s)
           | Inr v \<Rightarrow> (Inr v, s\<lparr>attr_Ec := Some v\<rparr>))
      | Some v \<Rightarrow> (Inr v, s))"

definition set_Ec :: "real \<Rightarrow> concrete_facade \<Rightarrow> concrete_facade" where
  "set_Ec v s = s\<lparr>attr_Ec := Some \<bar>v\<bar>\<rparr>"

text \<open>
  The getters of \<open>fct\<close> and \<open>eps_cu\<close> call \<^verbatim>\<open>aci318_19.fct\<close> and
  \<^verbatim>\<open>aci318_19.eps_cu\<close>. The package exports \<^verbatim>\<open>Ec\<close> only, so the two primitives are
  parameters here: a function from \<^verbatim>\<open>_fc\<close> to a result or an exception. For the
  package as it stands the parameter is \<open>missing_primitive\<close>.
\<close>

definition missing_primitive :: "real option \<Rightarrow> error + real" where
  "missing_primitive fc = Inl AttributeError"

definition get_fct ::
  "(real option \<Rightarrow> error + real) \<Rightarrow> concrete_facade \<Rightarrow> (error + real) \<times> concrete_facade" where
  "get_fct prim s =
     (case attr_fct s of
        None \<Rightarrow>
          (case prim (attr_fc s) of
             Inl e \<Rightarrow> (Inl e, s)
           | Inr v \<Rightarrow> (Inr v, s\<lparr>attr_fct := Some v\<rparr>))
      | Some v \<Rightarrow> (Inr v, s))"

definition set_fct :: "real \<Rightarrow> concrete_facade \<Rightarrow> concrete_facade" where
  "set_fct v s = s\<lparr>attr_fct := Some \<bar>v\<bar>\<rparr>"

text \<open>
  \<^verbatim>\<open>self._eps_cu = self._eps_cu or aci318_19.eps_cu(self._fc)\<close>: the stored value is
  kept when it is truthy, that is neither \<^verbatim>\<open>None\<close> nor zero; otherwise the primitive
  is called and its result stored. The setter stores the value as it is.
\<close>

definition truthy :: "real option \<Rightarrow> bool" where
  "truthy x = (case x of None \<Rightarrow> False | Some v \<Rightarrow> v \<noteq> 0)"

definition get_eps_cu ::
  "(real option \<Rightarrow> error + real) \<Rightarrow> concrete_facade \<Rightarrow> (error + real) \<times> concrete_facade" where
  "get_eps_cu prim s =
     (if truthy (attr_eps_cu s) then (Inr (the (attr_eps_cu s)), s)
      else
        (case prim (attr_fc s) of
           Inl e \<Rightarrow> (Inl e, s)
         | Inr v \<Rightarrow> (Inr v, s\<lparr>attr_eps_cu := Some v\<rparr>)))"

definition set_eps_cu :: "real \<Rightarrow> concrete_facade \<Rightarrow> concrete_facade" where
  "set_eps_cu v s = s\<lparr>attr_eps_cu := Some v\<rparr>"

text \<open>A freshly constructed object: no derived value computed, none overridden.\<close>

definition fresh_facade :: "real option \<Rightarrow> concrete_facade" where
  "fresh_facade fc = \<lparr>attr_fc = fc, attr_fct = None, attr_Ec = None, attr_eps_cu = None\<rparr>"

section \<open>Basic facts about the failure model\<close>

lemma bind_Inr_iff: "bind m f = Inr r \<longleftrightarrow> (\<exists>v. m = Inr v \<and> f v = Inr r)"
  by (cases m) (simp_all add: bind_def)

lemma bind_Inl_iff: "bind m f = Inl e \<longleftrightarrow> m = Inl e \<or> (\<exists>v. m = Inr v \<and> f v = Inl e)"
  by (cases m) (simp_all add: bind_def)

lemma py_sqrt_Inr: "py_sqrt x = Inr s \<longleftrightarrow> 0 \<le> x \<and> s = sqrt x"
  by (auto simp: py_sqrt_def)

lemma py_sqrt_Inl: "py_sqrt x = Inl e \<longleftrightarrow> x < 0 \<and> e = math_domain_error"
  by (auto simp: py_sqrt_def)

lemma py_div_Inl: "py_div a b = Inl e \<longleftrightarrow> b = 0 \<and> e = ZeroDivisionError"
  by (auto simp: py_div_def)

lemma py_max_Inl: "py_max x y = Inl e \<Longrightarrow> e = TypeError"
  by (cases x; cases y) auto

lemma py_min_Inl: "py_min x y = Inl e \<Longrightarrow> e = TypeError"
  by (cases x; cases y) auto

lemma py_min_Inr: "py_min x y = Inr m \<Longrightarrow> \<exists>a b. x = PFloat a \<and> y = PFloat b \<and> m = min a b"
  by (cases x; cases y) (auto simp: min_def)

lemma py_max_Inr: "py_max x y = Inr m \<Longrightarrow> \<exists>a b. x = PFloat a \<and> y = PFloat b \<and> m = max a b"
  by (cases x; cases y) (auto simp: max_def)

lemma pow_third_0: "pow_third 0 = PFloat 0"
  by (simp add: pow_third_def)

lemma pow_third_1: "pow_third 1 = PFloat 1"
  by (simp add: pow_third_def)

lemma Nu_term_zero: "Nu_term 0 Ag f_c = 0"
  by (simp add: Nu_term_def split: option.splits)

section \<open>Which failures the shear calculation can end in\<close>

lemma size_effect_factor_Inl: "size_effect_factor d = Inl e \<Longrightarrow> arithmetic_error e"
  by (auto simp: size_effect_factor_def bind_Inl_iff py_sqrt_Inl py_div_Inl arithmetic_error_def)

lemma Vc_with_min_Inl: "Vc_with_min f_c bw d a lam = Inl e \<Longrightarrow> arithmetic_error e"
  by (auto simp: Vc_with_min_def bind_Inl_iff py_sqrt_Inl py_div_Inl arithmetic_error_def Let_def
        dest: py_max_Inl)

lemma Vc_without_min_Inl: "Vc_without_min f_c bw d av lam ls = Inl e \<Longrightarrow> arithmetic_error e"
  by (auto simp: Vc_without_min_def bind_Inl_iff py_sqrt_Inl py_div_Inl arithmetic_error_def Let_def
        split: option.splits if_splits)

lemma Vc_table_Inl: "Vc_table f_c bw d av lam ls = Inl e \<Longrightarrow> arithmetic_error e"
  by (auto simp: Vc_table_def split: option.splits if_splits
        dest: Vc_with_min_Inl Vc_without_min_Inl)

lemma calc_shear_strength_Inl:
  assumes "calc_shear_strength f_c bw d Nu Ag Av_min lam ph = Inl e"
  shows "(Nu \<noteq> 0 \<and> Ag = None \<and> e = Ag_required) \<or>
         (\<not> (Nu \<noteq> 0 \<and> Ag = None) \<and> arithmetic_error e)"
proof (cases "Nu \<noteq> 0 \<and> Ag = None")
  case True
  with assms show ?thesis by (simp add: calc_shear_strength_def)
next
  case False
  with assms have "arithmetic_error e"
    by (auto simp: calc_shear_strength_def bind_Inl_iff py_sqrt_Inl Let_def
          dest: size_effect_factor_Inl Vc_table_Inl py_min_Inl)
       (auto simp: arithmetic_error_def dest: py_min_Inl)
  with False show ?thesis by simp
qed

text \<open>Two runs of the calculation, used as concrete instances below.\<close>

lemma size_effect_factor_10: "size_effect_factor 10 = Inr 1"
  by (simp add: size_effect_factor_def bind_def py_div_def py_sqrt_def)

lemma calc_shear_strength_clamped:
  "calc_shear_strength 4 1 10 0 None (Some 10) 1 None =
     Inr \<lparr>Vc = 100, Vn = 75, phi = 3 / 4, lambda_s = 1\<rparr>"
  by (simp add: calc_shear_strength_def size_effect_factor_10 Vc_table_def Vc_with_min_def
        bind_def py_sqrt_def py_div_def pow_third_1 Nu_term_def)

section \<open>The shear calculation: validation of the axial load\<close>

text \<open>
  C3. \<open>calc_shear_strength\<close> fails with a validation error exactly when an axial load
  \<open>Nu \<noteq> 0\<close> comes without \<open>Ag\<close>: the outcome is then the error and no result. With
  \<open>Nu = 0\<close> a missing \<open>Ag\<close> is no error: the outcome is the one of the same call with
  any \<open>Ag\<close> given. A validation error is an error of the function's own \<^verbatim>\<open>raise\<close>
  statement; the other failures of the calculation are arithmetic ones.
\<close>

theorem Ag_required_iff:
  "(calc_shear_strength f_c bw d Nu Ag Av_min lam ph = Inl Ag_required \<longleftrightarrow> Nu \<noteq> 0 \<and> Ag = None) \<and>
   (fails_validation (calc_shear_strength f_c bw d Nu Ag Av_min lam ph) \<longleftrightarrow> Nu \<noteq> 0 \<and> Ag = None) \<and>
   (Nu \<noteq> 0 \<and> Ag = None \<longrightarrow> (\<forall>r. calc_shear_strength f_c bw d Nu Ag Av_min lam ph \<noteq> Inr r)) \<and>
   calc_shear_strength f_c bw d 0 None Av_min lam ph = calc_shear_strength f_c bw d 0 Ag Av_min lam ph"
proof (cases "Nu \<noteq> 0 \<and> Ag = None")
  case True
  then have "calc_shear_strength f_c bw d Nu Ag Av_min lam ph = Inl Ag_required"
    by (simp add: calc_shear_strength_def)
  with True show ?thesis
    by (simp add: fails_validation_def calc_shear_strength_def Nu_term_zero)
next
  case False
  have "\<not> is_validation_error e"
    if "calc_shear_strength f_c bw d Nu Ag Av_min lam ph = Inl e" for e
    using calc_shear_strength_Inl [OF that] False by (auto simp: arithmetic_error_def)
  then have "\<not> fails_validation (calc_shear_strength f_c bw d Nu Ag Av_min lam ph)"
    and "calc_shear_strength f_c bw d Nu Ag Av_min lam ph \<noteq> Inl Ag_required"
    by (auto simp: fails_validation_def split: sum.splits)
  moreover have "calc_shear_strength f_c bw d 0 None Av_min lam ph =
      calc_shear_strength f_c bw d 0 Ag Av_min lam ph"
    by (simp add: calc_shear_strength_def Nu_term_zero)
  ultimately show ?thesis using False by auto
qed

theorem Ag_required_iff_witness:
  "calc_shear_strength 4 1 10 5 None (Some 10) 1 None = Inl Ag_required \<and>
   fails_validation (calc_shear_strength 4 1 10 5 None (Some 10) 1 None) \<and>
   calc_shear_strength 4 1 10 5 None (Some 10) 1 None
     \<noteq> Inr \<lparr>Vc = 100, Vn = 75, phi = 3 / 4, lambda_s = 1\<rparr> \<and>
   \<not> fails_validation (calc_shear_strength 4 1 10 0 None (Some 10) 1 None) \<and>
   calc_shear_strength 4 1 10 0 (Some 60) (Some 10) 1 None =
     Inr \<lparr>Vc = 100, Vn = 75, phi = 3 / 4, lambda_s = 1\<rparr>"
proof -
  have a: "calc_shear_strength 4 1 10 5 None (Some 10) 1 None = Inl Ag_required"
    using Ag_required_iff [of 4 1 10 5 None "Some 10" 1 None] by simp
  have b: "fails_validation (calc_shear_strength 4 1 10 5 None (Some 10) 1 None)"
    using Ag_required_iff [of 4 1 10 5 None "Some 10" 1 None]
    by (simp add: fails_validation_def)
  have c: "\<not> fails_validation (calc_shear_strength 4 1 10 0 None (Some 10) 1 None)"
    using Ag_required_iff [of 4 1 10 0 None "Some 10" 1 None] by simp
  have d: "calc_shear_strength 4 1 10 0 (Some 60) (Some 10) 1 None =
      calc_shear_strength 4 1 10 0 None (Some 10) 1 None"
    using Ag_required_iff [of 4 1 10 0 "Some 60" "Some 10" 1 None] by simp
  show ?thesis
    unfolding d using b c by (simp add: a calc_shear_strength_clamped)
qed

section \<open>The shear calculation: the ceiling on \<open>Vc\<close>\<close>

text \<open>
  C1. Whenever \<open>calc_shear_strength\<close> returns a result, its \<open>Vc\<close> is at most
  \<open>5 * lambda_concrete * sqrt f_c * bw * d\<close>, whatever branch of the table was taken and
  whatever the axial load added.
\<close>

theorem Vc_clamp:
  assumes "calc_shear_strength f_c bw d Nu Ag Av_min lambda_concrete phi_arg = Inr r"
  shows "Vc r \<le> 5 * lambda_concrete * sqrt f_c * bw * d"
  using assms
  by (auto simp: calc_shear_strength_def bind_Inr_iff py_sqrt_Inr Let_def
        split: if_splits dest!: py_min_Inr)

theorem Vc_clamp_witness:
  "calc_shear_strength 4 1 10 0 None (Some 10) 1 None =
     Inr \<lparr>Vc = 100, Vn = 75, phi = 3 / 4, lambda_s = 1\<rparr> \<and>
   Vc \<lparr>Vc = 100, Vn = 75, phi = 3 / 4, lambda_s = 1\<rparr> \<le> 5 * 1 * sqrt 4 * 1 * 10"
  using Vc_clamp [OF calc_shear_strength_clamped] calc_shear_strength_clamped
  by simp

section \<open>Design strengths of reinforcement\<close>

text \<open>
  C9. \<open>fyd\<close> and \<open>fud\<close> fail with a validation error exactly when the strength is not
  positive or \<open>gamma_s\<close> is below one; on every other input they return the strength
  divided by \<open>gamma_s\<close>. A failure is an error value and carries no result.
\<close>

theorem fyd_fud_validation:
  "(fails_validation (fyd fy gamma_s) \<longleftrightarrow> fy \<le> 0 \<or> gamma_s < 1) \<and>
   ((\<exists>e. fyd fy gamma_s = Inl e) \<longleftrightarrow> fy \<le> 0 \<or> gamma_s < 1) \<and>
   (\<not> (fy \<le> 0 \<or> gamma_s < 1) \<longrightarrow> fyd fy gamma_s = Inr (fy / gamma_s)) \<and>
   (fails_validation (fud fu gamma_s) \<longleftrightarrow> fu \<le> 0 \<or> gamma_s < 1) \<and>
   ((\<exists>e. fud fu gamma_s = Inl e) \<longleftrightarrow> fu \<le> 0 \<or> gamma_s < 1) \<and>
   (\<not> (fu \<le> 0 \<or> gamma_s < 1) \<longrightarrow> fud fu gamma_s = Inr (fu / gamma_s))"
  by (simp add: fyd_def fud_def fails_validation_def)

theorem fyd_fud_validation_witness:
  "fyd 60000 (3 / 2) = Inr 40000 \<and> fud 90000 (3 / 2) = Inr 60000 \<and>
   fails_validation (fyd 0 (3 / 2)) \<and> fails_validation (fyd 60000 (1 / 2)) \<and>
   fails_validation (fud (- 1) (3 / 2)) \<and> fails_validation (fud 90000 (1 / 2))"
  using fyd_fud_validation [of 60000 "3 / 2" 90000]
    fyd_fud_validation [of 0 "3 / 2" "- 1"]
    fyd_fud_validation [of 60000 "1 / 2" 90000]
  by simp

section \<open>The size effect factor\<close>

lemma size_effect_factor_pos:
  assumes "0 < d"
  shows "size_effect_factor d = Inr (min (sqrt (2 / (1 + d / 10))) 1)"
  using assms
  by (auto simp: size_effect_factor_def bind_def py_div_def py_sqrt_def min_def
        add_nonneg_eq_0_iff)

lemma size_effect_factor_small:
  assumes "0 < d" "d \<le> 10"
  shows "size_effect_factor d = Inr 1"
proof -
  have "1 + d / 10 \<le> 2" "0 < 1 + d / 10" using assms by simp_all
  then have "1 \<le> 2 / (1 + d / 10)" by (simp add: field_simps)
  then have "1 \<le> sqrt (2 / (1 + d / 10))" by simp
  then show ?thesis using assms(1) by (simp add: size_effect_factor_pos min_def)
qed

lemma size_effect_factor_large:
  assumes "10 \<le> d"
  shows "size_effect_factor d = Inr (sqrt (2 / (1 + d / 10)))"
proof -
  have "2 \<le> 1 + d / 10" using assms by simp
  then have "2 / (1 + d / 10) \<le> 1" by (simp add: field_simps)
  then have "sqrt (2 / (1 + d / 10)) \<le> 1" by simp
  then show ?thesis using assms by (simp add: size_effect_factor_pos min_def)
qed

lemma size_effect_factor_decreasing:
  assumes "10 \<le> d" "d < d'"
  shows "\<exists>v v'. size_effect_factor d = Inr v \<and> size_effect_factor d' = Inr v' \<and> v' < v"
proof -
  have "2 / (1 + d' / 10) < 2 / (1 + d / 10)"
    using assms by (simp add: field_simps)
  then have "sqrt (2 / (1 + d' / 10)) < sqrt (2 / (1 + d / 10))" by simp
  then show ?thesis using assms by (simp add: size_effect_factor_large)
qed

text \<open>Beyond \<open>max 10 (20 / eps\<^sup>2)\<close> the factor stays below \<open>eps\<close>.\<close>

lemma size_effect_factor_vanishes:
  assumes "0 < eps"
  shows "\<exists>D. \<forall>d\<ge>D. \<exists>v. size_effect_factor d = Inr v \<and> 0 < v \<and> v < eps"
proof (rule exI [of _ "max 10 (20 / eps\<^sup>2)"], intro allI impI)
  fix d :: real
  assume d: "max 10 (20 / eps\<^sup>2) \<le> d"
  then have d10: "10 \<le> d" and dl: "20 / eps\<^sup>2 \<le> d" by simp_all
  have pos: "0 < 1 + d / 10" using d10 by simp
  have "20 / eps\<^sup>2 < 10 + d" using dl d10 by simp
  then have "20 < eps\<^sup>2 * (10 + d)" using assms by (simp add: field_simps)
  then have "2 / (1 + d / 10) < eps\<^sup>2" using pos by (simp add: field_simps)
  then have "sqrt (2 / (1 + d / 10)) < sqrt (eps\<^sup>2)" by (rule real_sqrt_less_mono)
  then have "sqrt (2 / (1 + d / 10)) < eps" using assms by simp
  moreover have "0 < sqrt (2 / (1 + d / 10))" using pos by simp
  ultimately show "\<exists>v. size_effect_factor d = Inr v \<and> 0 < v \<and> v < eps"
    using d10 by (simp add: size_effect_factor_large)
qed

lemma sqrt_two_fifths: "0.632 < sqrt (2 / 5) \<and> sqrt (2 / 5) < (0.633 :: real)"
proof -
  have "sqrt ((0.632)\<^sup>2) < sqrt (2 / 5)"
    by (rule real_sqrt_less_mono) (simp add: power2_eq_square)
  moreover have "sqrt (2 / 5) < sqrt ((0.633)\<^sup>2)"
    by (rule real_sqrt_less_mono) (simp add: power2_eq_square)
  ultimately show ?thesis by simp
qed

lemma size_effect_factor_40: "size_effect_factor 40 = Inr (sqrt (2 / 5))"
  by (simp add: size_effect_factor_large)

lemma size_effect_factor_70: "size_effect_factor 70 = Inr (1 / 2)"
proof -
  have "sqrt (1 / 4) = 1 / 2" by (simp add: real_sqrt_divide)
  then show ?thesis by (simp add: size_effect_factor_large)
qed

lemma size_effect_factor_310: "size_effect_factor 310 = Inr (1 / 4)"
proof -
  have "sqrt (1 / 16) = 1 / sqrt (4\<^sup>2)" by (simp add: real_sqrt_divide)
  then have "sqrt (1 / 16) = 1 / 4" by simp
  then show ?thesis by (simp add: size_effect_factor_large)
qed

lemma calc_lambda_s:
  assumes "calc_shear_strength f_c bw d Nu Ag Av_min lam ph = Inr r"
  shows "size_effect_factor d = Inr (lambda_s r)"
  using assms
  by (auto simp: calc_shear_strength_def bind_Inr_iff Let_def split: if_splits)

text \<open>
  C4, as the claim has it: the factor approaches 1 for large \<open>d\<close>. It does not:
  at \<open>d = 70\<close> it is \<open>1 / 2\<close>, at \<open>d = 310\<close> it is \<open>1 / 4\<close>, and from \<open>d = 70\<close>
  on it stays at or below \<open>1 / 2\<close>.
\<close>

theorem size_effect_factor_not_to_one:
  "size_effect_factor 70 = Inr (1 / 2) \<and> size_effect_factor 310 = Inr (1 / 4) \<and>
   \<not> (\<forall>eps>0. \<exists>D. \<forall>d\<ge>D. \<exists>v. size_effect_factor d = Inr v \<and> \<bar>v - 1\<bar> < eps)"
proof -
  have "\<not> (\<forall>eps>0. \<exists>D. \<forall>d\<ge>D. \<exists>v. size_effect_factor d = Inr v \<and> \<bar>v - 1\<bar> < eps)"
  proof
    assume "\<forall>eps>0. \<exists>D. \<forall>d\<ge>D. \<exists>v. size_effect_factor d = Inr v \<and> \<bar>v - 1\<bar> < eps"
    then obtain D where D: "\<forall>d\<ge>D. \<exists>v. size_effect_factor d = Inr v \<and> \<bar>v - 1\<bar> < 1 / 2"
      by (metis half_gt_zero_iff zero_less_one)
    define d where "d = max D 70"
    have "\<exists>v'. size_effect_factor d = Inr v' \<and> v' \<le> 1 / 2"
    proof (cases "d = 70")
      case True
      then show ?thesis by (intro exI [of _ "1 / 2"]) (simp add: size_effect_factor_70)
    next
      case False
      then have "70 < d" by (simp add: d_def)
      then show ?thesis using size_effect_factor_decreasing [of 70 d]
        by (auto simp: size_effect_factor_70)
    qed
    then obtain v' where "size_effect_factor d = Inr v'" "v' \<le> 1 / 2"
      by auto
    moreover have "\<exists>v. size_effect_factor d = Inr v \<and> \<bar>v - 1\<bar> < 1 / 2"
      using D by (simp add: d_def)
    ultimately show False by auto
  qed
  then show ?thesis by (simp add: size_effect_factor_70 size_effect_factor_310)
qed

text \<open>
  C4, amended. For every \<open>d > 0\<close> the factor is \<open>min (sqrt (2 / (1 + d / 10))) 1\<close>, and
  this is the \<open>lambda_s\<close> of every result of \<open>calc_shear_strength\<close>. It lies in
  \<open>(0, 1]\<close>, is 1 up to \<open>d = 10\<close>, decreases strictly as \<open>d\<close> grows beyond 10
  (\<open>d = 40\<close> gives \<open>sqrt (2 / 5)\<close>, between 0.632 and 0.633), and tends to 0 for
  large \<open>d\<close>.
\<close>

theorem size_effect_factor_profile:
  assumes "0 < d"
  shows "size_effect_factor d = Inr (min (sqrt (2 / (1 + d / 10))) 1) \<and>
    0 < min (sqrt (2 / (1 + d / 10))) 1 \<and> min (sqrt (2 / (1 + d / 10))) 1 \<le> 1 \<and>
    (calc_shear_strength f_c bw d Nu Ag Av_min lam ph = Inr r \<longrightarrow>
       lambda_s r = min (sqrt (2 / (1 + d / 10))) 1) \<and>
    (d \<le> 10 \<longrightarrow> size_effect_factor d = Inr 1) \<and>
    (10 \<le> d \<and> d < d' \<longrightarrow>
       (\<exists>v v'. size_effect_factor d = Inr v \<and> size_effect_factor d' = Inr v' \<and> v' < v)) \<and>
    size_effect_factor 10 = Inr 1 \<and>
    size_effect_factor 40 = Inr (sqrt (2 / 5)) \<and>
    0.632 < sqrt (2 / 5) \<and> sqrt (2 / 5) < (0.633 :: real) \<and>
    (\<forall>eps>0. \<exists>D. \<forall>x\<ge>D. \<exists>v. size_effect_factor x = Inr v \<and> 0 < v \<and> v < eps)"
proof -
  have "0 < 2 / (1 + d / 10)" using assms by simp
  then have a: "0 < min (sqrt (2 / (1 + d / 10))) 1" by simp
  have b: "lambda_s r = min (sqrt (2 / (1 + d / 10))) 1"
    if "calc_shear_strength f_c bw d Nu Ag Av_min lam ph = Inr r"
    using calc_lambda_s [OF that] by (simp add: size_effect_factor_pos [OF assms])
  show ?thesis
    using a b size_effect_factor_small [OF assms] size_effect_factor_decreasing [of d d']
      size_effect_factor_vanishes sqrt_two_fifths
    by (simp add: size_effect_factor_pos [OF assms] size_effect_factor_10 size_effect_factor_40)
qed

theorem size_effect_factor_profile_witness:
  "(0::real) < 10 \<and> size_effect_factor 10 = Inr 1 \<and>
   calc_shear_strength 4 1 10 0 None (Some 10) 1 None =
     Inr \<lparr>Vc = 100, Vn = 75, phi = 3 / 4, lambda_s = 1\<rparr> \<and>
   lambda_s \<lparr>Vc = 100, Vn = 75, phi = 3 / 4, lambda_s = 1\<rparr> = min (sqrt (2 / (1 + 10 / 10))) 1 \<and>
   (\<exists>v v'. size_effect_factor 10 = Inr v \<and> size_effect_factor 70 = Inr v' \<and> v' < v)"
proof -
  have h: "(0::real) < 10" by simp
  note t = size_effect_factor_profile [OF h, of 4 1 0 None "Some 10" 1 None
      "\<lparr>Vc = 100, Vn = 75, phi = 3 / 4, lambda_s = 1\<rparr>" 70]
  have "lambda_s \<lparr>Vc = 100, Vn = 75, phi = 3 / 4, lambda_s = 1\<rparr> = min (sqrt (2 / (1 + 10 / 10))) 1"
    using t calc_shear_strength_clamped by blast
  moreover have "\<exists>v v'. size_effect_factor 10 = Inr v \<and> size_effect_factor 70 = Inr v' \<and> v' < v"
  proof -
    have "(10::real) \<le> 10 \<and> (10::real) < 70" by simp
    with t show ?thesis by blast
  qed
  moreover have "size_effect_factor 10 = Inr 1" using t by blast
  ultimately show ?thesis using calc_shear_strength_clamped by simp
qed

section \<open>The modulus of elasticity and the modulus of rupture\<close>

lemma Ec_nonneg:
  assumes "0 \<le> f_c"
  shows "Ec f_c w_c =
    Inr (if 90 \<le> w_c \<and> w_c \<le> 160 then 33 * (w_c powr 1.5) * sqrt f_c else 57000 * sqrt f_c)"
  using assms by (simp add: Ec_def bind_def py_sqrt_def)

lemma Ec_negative: "f_c < 0 \<Longrightarrow> Ec f_c w_c = Inl math_domain_error"
  by (simp add: Ec_def bind_def py_sqrt_def)

lemma f_r_nonneg: "0 \<le> f_c \<Longrightarrow> f_r f_c lam = Inr (lam * 7.5 * sqrt f_c)"
  by (simp add: f_r_def bind_def py_sqrt_def)

lemma f_r_negative: "f_c < 0 \<Longrightarrow> f_r f_c lam = Inl math_domain_error"
  by (simp add: f_r_def bind_def py_sqrt_def)

text \<open>
  C8. For \<open>f_c > 0\<close>: with \<open>90 \<le> w_c \<le> 160\<close> the modulus is
  \<open>33 * w_c powr 1.5 * sqrt f_c\<close>, strictly increasing in \<open>f_c\<close> and in \<open>w_c\<close> over that
  range; with \<open>w_c\<close> outside the range it is \<open>57000 * sqrt f_c\<close>, the same for every
  such \<open>w_c\<close>.
\<close>

theorem Ec_formula_monotone:
  assumes "0 < f_c"
  shows "(90 \<le> w_c \<and> w_c \<le> 160 \<longrightarrow> Ec f_c w_c = Inr (33 * (w_c powr 1.5) * sqrt f_c)) \<and>
         (\<not> (90 \<le> w_c \<and> w_c \<le> 160) \<longrightarrow> Ec f_c w_c = Inr (57000 * sqrt f_c)) \<and>
         (90 \<le> w_c \<and> w_c \<le> 160 \<and> f_c < f_c' \<longrightarrow>
            (\<exists>v v'. Ec f_c w_c = Inr v \<and> Ec f_c' w_c = Inr v' \<and> v < v')) \<and>
         (90 \<le> w_c \<and> w_c < w_c' \<and> w_c' \<le> 160 \<longrightarrow>
            (\<exists>v v'. Ec f_c w_c = Inr v \<and> Ec f_c w_c' = Inr v' \<and> v < v')) \<and>
         (\<not> (90 \<le> w_c \<and> w_c \<le> 160) \<and> \<not> (90 \<le> w_c' \<and> w_c' \<le> 160) \<longrightarrow>
            Ec f_c w_c = Ec f_c w_c')"
proof -
  have f: "0 \<le> f_c" using assms by simp
  have m1: "33 * (w_c powr 1.5) * sqrt f_c < 33 * (w_c powr 1.5) * sqrt f_c'"
    if "90 \<le> w_c" "f_c < f_c'"
  proof -
    have "0 < w_c powr 1.5" using that(1) by simp
    moreover have "sqrt f_c < sqrt f_c'" using that(2) by simp
    ultimately show ?thesis by simp
  qed
  have m2: "33 * (w_c powr 1.5) * sqrt f_c < 33 * (w_c' powr 1.5) * sqrt f_c"
    if "90 \<le> w_c" "w_c < w_c'"
  proof -
    have "w_c powr 1.5 < w_c' powr 1.5"
      using that by (intro powr_less_mono2) simp_all
    moreover have "0 < sqrt f_c" using assms by simp
    ultimately show ?thesis by simp
  qed
  have f': "0 \<le> f_c'" if "f_c < f_c'" using that assms by simp
  show ?thesis
    using m1 m2 by (auto simp: Ec_nonneg [OF f] Ec_nonneg [OF f'])
qed

theorem Ec_formula_monotone_witness:
  "(0::real) < 4000 \<and>
   Ec 4000 145 = Inr (33 * (145 powr 1.5) * sqrt 4000) \<and>
   Ec 4000 170 = Inr (57000 * sqrt 4000) \<and>
   (\<exists>v v'. Ec 4000 145 = Inr v \<and> Ec 5000 145 = Inr v' \<and> v < v') \<and>
   (\<exists>v v'. Ec 4000 120 = Inr v \<and> Ec 4000 145 = Inr v' \<and> v < v') \<and>
   Ec 4000 170 = Ec 4000 80"
proof -
  have h: "(0::real) < 4000" by simp
  have r1: "(90::real) \<le> 145 \<and> (145::real) \<le> 160" by simp
  have r2: "(90::real) \<le> 145 \<and> (145::real) \<le> 160 \<and> (4000::real) < 5000" by simp
  have r3: "(90::real) \<le> 120 \<and> (120::real) < 145 \<and> (145::real) \<le> 160" by simp
  have r4: "\<not> ((90::real) \<le> 170 \<and> (170::real) \<le> 160)" by simp
  have r5: "\<not> ((90::real) \<le> 170 \<and> (170::real) \<le> 160) \<and> \<not> ((90::real) \<le> 80 \<and> (80::real) \<le> 160)"
    by simp
  have "Ec 4000 145 = Inr (33 * (145 powr 1.5) * sqrt 4000)"
    using Ec_formula_monotone [OF h, of 145 5000 150] r1 by blast
  moreover have "\<exists>v v'. Ec 4000 145 = Inr v \<and> Ec 5000 145 = Inr v' \<and> v < v'"
    using Ec_formula_monotone [OF h, of 145 5000 150] r2 by blast
  moreover have "\<exists>v v'. Ec 4000 120 = Inr v \<and> Ec 4000 145 = Inr v' \<and> v < v'"
    using Ec_formula_monotone [OF h, of 120 5000 145] r3 by blast
  moreover have "Ec 4000 170 = Inr (57000 * sqrt 4000)"
    using Ec_formula_monotone [OF h, of 170 5000 80] r4 by blast
  moreover have "Ec 4000 170 = Ec 4000 80"
    using Ec_formula_monotone [OF h, of 170 5000 80] r5 by blast
  ultimately show ?thesis by simp
qed

text \<open>
  C7, as the claim has it: for \<open>f_c \<le> 0\<close> both functions return a degenerate number
  and do not fail. At \<open>f_c = - 1\<close> both fail, with the error of the square root.
\<close>

theorem Ec_f_r_negative_fail:
  "Ec (- 1) 145 = Inl math_domain_error \<and> f_r (- 1) 1 = Inl math_domain_error"
  by (simp add: Ec_negative f_r_negative)

text \<open>
  C7, amended. For \<open>f_c = 0\<close> both functions return 0 and do not fail; for every
  \<open>f_c < 0\<close> both fail with the math domain error of \<^verbatim>\<open>math.sqrt\<close>, which is not one
  of the validation errors.
\<close>

theorem Ec_f_r_nonpositive:
  "(f_c < 0 \<longrightarrow> Ec f_c w_c = Inl math_domain_error \<and> f_r f_c lam = Inl math_domain_error \<and>
      \<not> fails_validation (Ec f_c w_c) \<and> \<not> fails_validation (f_r f_c lam)) \<and>
   Ec 0 w_c = Inr 0 \<and> f_r 0 lam = Inr 0"
  by (simp add: Ec_negative f_r_negative Ec_nonneg f_r_nonneg fails_validation_def)

theorem Ec_f_r_nonpositive_witness:
  "(- 4000 :: real) < 0 \<and> Ec (- 4000) 145 = Inl math_domain_error \<and>
   f_r (- 4000) 1 = Inl math_domain_error \<and> Ec 0 145 = Inr 0 \<and> f_r 0 1 = Inr 0"
  using Ec_f_r_nonpositive [of "- 4000" 145 1] by simp

section \<open>The table of \<open>Vc\<close>\<close>

lemma py_max_floats: "py_max (PFloat a) (PFloat b) = Inr (max a b)"
  by (simp add: max_def)

lemma py_min_floats: "py_min (PFloat a) (PFloat b) = Inr (min a b)"
  by (simp add: min_def)

lemma pow_third_nonneg: "0 \<le> x \<Longrightarrow> pow_third x = PFloat (x powr (1 / 3))"
  by (simp add: pow_third_def)

lemma pow_third_neg:
  "x < 0 \<Longrightarrow> pow_third x = PComplex (rcis (\<bar>x\<bar> powr (1 / 3)) (pi * (1 / 3)))"
  by (simp add: pow_third_def)

lemma num_mul_PFloat_D: "num_mul x (PFloat b) = PFloat r \<Longrightarrow> \<exists>a. x = PFloat a \<and> r = a * b"
  by (cases x) auto

lemma num_mul_PFloat_D2: "num_mul (PFloat a) y = PFloat r \<Longrightarrow> \<exists>b. y = PFloat b \<and> r = a * b"
  by (cases y) auto

lemma num_add_PFloat_D: "num_add x (PFloat b) = PFloat r \<Longrightarrow> \<exists>a. x = PFloat a \<and> r = a + b"
  by (cases x) auto

lemma pow_third_PFloat_D: "pow_third x = PFloat r \<Longrightarrow> 0 \<le> x \<and> r = x powr (1 / 3)"
  by (auto simp: pow_third_def split: if_splits)

lemma Vc_with_min_value:
  assumes "0 \<le> f_c" "bw * d \<noteq> 0" "0 \<le> a / (bw * d)"
  shows "Vc_with_min f_c bw d a lam =
    Inr (PFloat (max (2 * lam * sqrt f_c * bw * d)
                     (8 * lam * (a / (bw * d)) powr (1 / 3) * sqrt f_c * bw * d)))"
  using assms
  by (simp add: Vc_with_min_def bind_def py_sqrt_def py_div_def pow_third_nonneg py_max_floats
        del: py_max.simps)

lemma Vc_without_min_None:
  assumes "0 \<le> f_c"
  shows "Vc_without_min f_c bw d None lam ls =
    Inr (PFloat (8 * ls * lam * 0 powr (1 / 3) * sqrt f_c * bw * d))"
  using assms
  by (simp add: Vc_without_min_def bind_def py_sqrt_def pow_third_0)

lemma Vc_without_min_Some:
  assumes "0 \<le> f_c" "bw * d \<noteq> 0" "a \<noteq> 0" "0 \<le> a / (bw * d)"
  shows "Vc_without_min f_c bw d (Some a) lam ls =
    Inr (PFloat (8 * ls * lam * (a / (bw * d)) powr (1 / 3) * sqrt f_c * bw * d))"
  using assms
  by (simp add: Vc_without_min_def bind_def py_sqrt_def py_div_def pow_third_nonneg)

text \<open>A negative reinforcement ratio leaves the table with a complex number.\<close>

lemma Vc_without_min_complex:
  assumes "0 \<le> f_c" "bw * d \<noteq> 0" "a / (bw * d) < 0"
  shows "Vc_without_min f_c bw d (Some a) lam ls =
    Inr (PComplex (of_real (8 * ls * lam) * rcis (\<bar>a / (bw * d)\<bar> powr (1 / 3)) (pi * (1 / 3))
                    * of_real (sqrt f_c) * of_real bw * of_real d))"
  using assms
  by (auto simp add: Vc_without_min_def bind_def py_sqrt_def py_div_def pow_third_neg)

lemma Vc_with_min_float:
  assumes "Vc_with_min f_c bw d a lam = Inr (PFloat r)"
  shows "r = max (2 * lam * sqrt f_c * bw * d)
                 (8 * lam * (a / (bw * d)) powr (1 / 3) * sqrt f_c * bw * d)"
  using assms
  by (auto simp: Vc_with_min_def bind_Inr_iff py_sqrt_Inr py_div_def Let_def split: if_splits
       dest!: py_max_Inr num_mul_PFloat_D num_mul_PFloat_D2 pow_third_PFloat_D)

lemma Vc_without_min_float:
  assumes "Vc_without_min f_c bw d av lam ls = Inr (PFloat r)"
  shows "r = 8 * ls * lam * (case av of None \<Rightarrow> 0 | Some a \<Rightarrow> a / (bw * d)) powr (1 / 3)
               * sqrt f_c * bw * d"
  using assms
  by (auto simp: Vc_without_min_def bind_Inr_iff py_sqrt_Inr py_div_def Let_def
       split: if_splits option.splits
       dest!: num_mul_PFloat_D num_mul_PFloat_D2 pow_third_PFloat_D)

text \<open>What the calculation returns once the factor and the table value are known.\<close>

lemma calc_shear_strength_value:
  assumes "size_effect_factor d = Inr ls"
    and "Vc_table f_c bw d Av_min lam ls = Inr (PFloat v0)"
    and "0 \<le> f_c" and "Nu = 0 \<or> Ag \<noteq> None"
  shows "calc_shear_strength f_c bw d Nu Ag Av_min lam ph =
     Inr \<lparr>Vc = min (v0 + Nu_term Nu Ag f_c * bw * d) (5 * lam * sqrt f_c * bw * d),
          Vn = (case ph of None \<Rightarrow> 0.75 | Some p \<Rightarrow> p)
               * min (v0 + Nu_term Nu Ag f_c * bw * d) (5 * lam * sqrt f_c * bw * d),
          phi = (case ph of None \<Rightarrow> 0.75 | Some p \<Rightarrow> p),
          lambda_s = ls\<rparr>"
  using assms
  by (auto simp add: calc_shear_strength_def bind_def py_sqrt_def py_min_floats Let_def
        simp del: py_min.simps)

lemma calc_shear_strength_Inr_D:
  assumes "calc_shear_strength f_c bw d Nu Ag Av_min lam ph = Inr r"
  shows "\<exists>v0. Vc_table f_c bw d Av_min lam (lambda_s r) = Inr (PFloat v0) \<and>
           Vc r = min (v0 + Nu_term Nu Ag f_c * bw * d) (5 * lam * sqrt f_c * bw * d)"
  using assms
  by (auto simp: calc_shear_strength_def bind_Inr_iff py_sqrt_Inr Let_def
        split: if_splits dest!: py_min_Inr num_add_PFloat_D)

text \<open>
  On the inputs of a section check (a strength that is not negative, positive width and
  depth, \<open>Ag\<close> given with an axial load, \<open>Av_min\<close> omitted or not negative) the
  calculation returns a result.
\<close>

lemma calc_shear_strength_returns:
  assumes "0 \<le> f_c" "0 < bw" "0 < d" "Nu = 0 \<or> Ag \<noteq> None"
    and "Av_min = None \<or> (\<exists>a. Av_min = Some a \<and> 0 \<le> a)"
  shows "\<exists>r. calc_shear_strength f_c bw d Nu Ag Av_min lam ph = Inr r"
proof -
  have nz: "bw * d \<noteq> 0" using assms by simp
  have "\<exists>v0. Vc_table f_c bw d Av_min lam (min (sqrt (2 / (1 + d / 10))) 1) = Inr (PFloat v0)"
  proof (cases Av_min)
    case None
    then show ?thesis by (simp add: Vc_table_def Vc_without_min_None [OF assms(1)])
  next
    case (Some a)
    with assms(5) have "0 \<le> a" by simp
    then have "0 \<le> a / (bw * d)" using assms by simp
    from Vc_with_min_value [OF assms(1) nz this] Some \<open>0 \<le> a\<close>
    show ?thesis by (simp add: Vc_table_def)
  qed
  then obtain v0 where
    "Vc_table f_c bw d Av_min lam (min (sqrt (2 / (1 + d / 10))) 1) = Inr (PFloat v0)" ..
  from calc_shear_strength_value [OF size_effect_factor_pos [OF assms(3)] this assms(1) assms(4)]
  show ?thesis by blast
qed

text \<open>
  A negative \<open>Av_min\<close> on a section of positive width and depth gives a negative
  ratio, a complex \<open>Vc\<close>, and the \<^verbatim>\<open>TypeError\<close> of the final \<^verbatim>\<open>min\<close>.
\<close>

lemma calc_shear_strength_negative_ratio:
  assumes "0 \<le> f_c" "0 < d" "0 < bw" "a < 0" "Nu = 0 \<or> Ag \<noteq> None"
  shows "calc_shear_strength f_c bw d Nu Ag (Some a) lam ph = Inl TypeError"
proof -
  have nz: "bw * d \<noteq> 0" using assms by simp
  have "a / (bw * d) < 0" using assms by (simp add: divide_neg_pos)
  from Vc_without_min_complex [OF assms(1) nz this]
  show ?thesis
    using assms
    by (auto simp add: calc_shear_strength_def size_effect_factor_pos Vc_table_def bind_def
          py_sqrt_def Let_def)
qed

text \<open>
  C2. The value of \<open>Vc\<close> before the axial adjustment and the clamp is the one of
  \<open>Vc_table\<close>: every result of \<open>calc_shear_strength\<close> is the clamp of a table value
  plus the axial term. With \<open>Av_min\<close> given and not negative the table value is the
  larger of \<open>Vc_a\<close> and \<open>Vc_b\<close> and does not depend on the size effect factor; otherwise
  it is \<open>8 * lambda_s * lambda_concrete * rho_w powr (1 / 3) * sqrt f_c * bw * d\<close> with
  \<open>rho_w = Av_min / (bw * d)\<close> for a truthy \<open>Av_min\<close> and \<open>rho_w = 0\<close> else. The first
  four parts give the value where the formulas are defined, the fifth says that no other
  float can come out of the table.
\<close>

theorem Vc_table_formula:
  "(0 \<le> a \<and> 0 \<le> f_c \<and> 0 < bw * d \<longrightarrow>
      Vc_table f_c bw d (Some a) lam ls =
        Inr (PFloat (max (2 * lam * sqrt f_c * bw * d)
                         (8 * lam * (a / (bw * d)) powr (1 / 3) * sqrt f_c * bw * d)))) \<and>
   (0 \<le> a \<longrightarrow> Vc_table f_c bw d (Some a) lam ls = Vc_table f_c bw d (Some a) lam ls') \<and>
   (0 \<le> f_c \<longrightarrow>
      Vc_table f_c bw d None lam ls =
        Inr (PFloat (8 * ls * lam * 0 powr (1 / 3) * sqrt f_c * bw * d))) \<and>
   (a < 0 \<and> 0 \<le> f_c \<and> bw * d < 0 \<longrightarrow>
      Vc_table f_c bw d (Some a) lam ls =
        Inr (PFloat (8 * ls * lam * (a / (bw * d)) powr (1 / 3) * sqrt f_c * bw * d))) \<and>
   (Vc_table f_c bw d av lam ls = Inr (PFloat r) \<longrightarrow>
      r = (if (case av of None \<Rightarrow> False | Some x \<Rightarrow> 0 \<le> x)
           then max (2 * lam * sqrt f_c * bw * d)
                    (8 * lam * (the av / (bw * d)) powr (1 / 3) * sqrt f_c * bw * d)
           else 8 * ls * lam * (if truthy av then the av / (bw * d) else 0) powr (1 / 3)
                  * sqrt f_c * bw * d)) \<and>
   (calc_shear_strength f_c bw d Nu Ag av lam ph = Inr res \<longrightarrow>
      (\<exists>v0. Vc_table f_c bw d av lam (lambda_s res) = Inr (PFloat v0) \<and>
            Vc res = min (v0 + Nu_term Nu Ag f_c * bw * d) (5 * lam * sqrt f_c * bw * d)))"
proof -
  have 1: "Vc_table f_c bw d (Some a) lam ls =
        Inr (PFloat (max (2 * lam * sqrt f_c * bw * d)
                         (8 * lam * (a / (bw * d)) powr (1 / 3) * sqrt f_c * bw * d)))"
    if "0 \<le> a \<and> 0 \<le> f_c \<and> 0 < bw * d"
  proof -
    have "bw * d \<noteq> 0" using that by (metis less_irrefl)
    moreover have "0 \<le> a / (bw * d)" using that by (metis divide_nonneg_pos)
    ultimately show ?thesis using that by (simp add: Vc_table_def Vc_with_min_value)
  qed
  have 2: "Vc_table f_c bw d (Some a) lam ls = Vc_table f_c bw d (Some a) lam ls'" if "0 \<le> a"
    using that by (simp add: Vc_table_def)
  have 3: "Vc_table f_c bw d None lam ls =
        Inr (PFloat (8 * ls * lam * 0 powr (1 / 3) * sqrt f_c * bw * d))" if "0 \<le> f_c"
    using that by (simp add: Vc_table_def Vc_without_min_None)
  have 4: "Vc_table f_c bw d (Some a) lam ls =
        Inr (PFloat (8 * ls * lam * (a / (bw * d)) powr (1 / 3) * sqrt f_c * bw * d))"
    if "a < 0 \<and> 0 \<le> f_c \<and> bw * d < 0"
  proof -
    have "bw * d \<noteq> 0" using that by (metis less_irrefl)
    moreover have "a \<noteq> 0" using that by (metis less_irrefl)
    moreover have "0 \<le> a / (bw * d)" using that by (metis divide_nonpos_neg less_imp_le)
    ultimately show ?thesis using that by (simp add: Vc_table_def Vc_without_min_Some)
  qed
  have 5: "r = (if (case av of None \<Rightarrow> False | Some x \<Rightarrow> 0 \<le> x)
           then max (2 * lam * sqrt f_c * bw * d)
                    (8 * lam * (the av / (bw * d)) powr (1 / 3) * sqrt f_c * bw * d)
           else 8 * ls * lam * (if truthy av then the av / (bw * d) else 0) powr (1 / 3)
                  * sqrt f_c * bw * d)"
    if "Vc_table f_c bw d av lam ls = Inr (PFloat r)"
  proof (cases av)
    case None
    with that show ?thesis
      by (auto simp: Vc_table_def truthy_def dest: Vc_without_min_float)
  next
    case (Some x)
    with that show ?thesis
      by (auto simp: Vc_table_def truthy_def split: if_splits
            dest: Vc_without_min_float Vc_with_min_float)
  qed
  show ?thesis
    using 1 2 3 4 5 calc_shear_strength_Inr_D [of f_c bw d Nu Ag av lam ph res] by blast
qed

theorem Vc_table_formula_witness:
  "Vc_table 4 1 10 (Some 10) 1 (1 / 2) = Inr (PFloat 160) \<and>
   Vc_table 4 1 10 (Some 10) 1 (1 / 2) = Vc_table 4 1 10 (Some 10) 1 1 \<and>
   Vc_table 4 1 10 None 1 (1 / 2) = Inr (PFloat 0) \<and>
   Vc_table 4 (- 1) 10 (Some (- 10)) 1 (1 / 2) = Inr (PFloat (- 80)) \<and>
   calc_shear_strength 4 1 10 0 None (Some 10) 1 None =
     Inr \<lparr>Vc = 100, Vn = 75, phi = 3 / 4, lambda_s = 1\<rparr> \<and>
   (\<exists>v0. Vc_table 4 1 10 (Some 10) 1 1 = Inr (PFloat v0) \<and>
         (100::real) = min (v0 + Nu_term 0 None 4 * 1 * 10) (5 * 1 * sqrt 4 * 1 * 10))"
proof -
  note t1 = Vc_table_formula [of 10 4 1 10 1 "1 / 2" 1 "Some 10" 160 0 None None
      "\<lparr>Vc = 100, Vn = 75, phi = 3 / 4, lambda_s = 1\<rparr>"]
  note t2 = Vc_table_formula [of "- 10" 4 "- 1" 10 1 "1 / 2" 1 "Some 10" 160 0 None None
      "\<lparr>Vc = 100, Vn = 75, phi = 3 / 4, lambda_s = 1\<rparr>"]
  note t3 = Vc_table_formula [of 10 4 1 10 1 1 1 "Some 10" 160 0 None None
      "\<lparr>Vc = 100, Vn = 75, phi = 3 / 4, lambda_s = 1\<rparr>"]
  have h1: "(0::real) \<le> 10 \<and> (0::real) \<le> 4 \<and> (0::real) < 1 * 10" by simp
  have h4: "(- 10 :: real) < 0 \<and> (0::real) \<le> 4 \<and> (- 1 :: real) * 10 < 0" by simp
  have a: "Vc_table 4 1 10 (Some 10) 1 (1 / 2) = Inr (PFloat 160)"
    using t1 h1 by simp
  have b: "Vc_table 4 1 10 (Some 10) 1 (1 / 2) = Vc_table 4 1 10 (Some 10) 1 1"
    using t1 h1 by blast
  have c: "Vc_table 4 1 10 None 1 (1 / 2) = Inr (PFloat 0)"
    using t1 h1 by simp
  have d: "Vc_table 4 (- 1) 10 (Some (- 10)) 1 (1 / 2) = Inr (PFloat (- 80))"
    using t2 h4 by simp
  have e: "\<exists>v0. Vc_table 4 1 10 (Some 10) 1 1 = Inr (PFloat v0) \<and>
         (100::real) = min (v0 + Nu_term 0 None 4 * 1 * 10) (5 * 1 * sqrt 4 * 1 * 10)"
    using t3 calc_shear_strength_clamped by (simp add: Nu_term_zero)
  show ?thesis using a b c d e calc_shear_strength_clamped by blast
qed

section \<open>Omitting \<open>Av_min\<close> against passing zero\<close>

lemma calc_without_Av_min:
  assumes "0 < f_c" "0 < bw" "0 < d"
  shows "calc_shear_strength f_c bw d 0 Ag None lam ph =
     Inr \<lparr>Vc = min 0 (5 * lam * sqrt f_c * bw * d),
          Vn = (case ph of None \<Rightarrow> 0.75 | Some p \<Rightarrow> p) * min 0 (5 * lam * sqrt f_c * bw * d),
          phi = (case ph of None \<Rightarrow> 0.75 | Some p \<Rightarrow> p),
          lambda_s = min (sqrt (2 / (1 + d / 10))) 1\<rparr>"
proof -
  have f: "0 \<le> f_c" using assms by simp
  have "Vc_table f_c bw d None lam (min (sqrt (2 / (1 + d / 10))) 1) = Inr (PFloat 0)"
    by (simp add: Vc_table_def Vc_without_min_None [OF f])
  from calc_shear_strength_value [OF size_effect_factor_pos [OF assms(3)] this f, of 0 Ag ph]
  show ?thesis by (simp add: Nu_term_zero)
qed

lemma calc_zero_Av_min:
  assumes "0 < f_c" "0 < bw" "0 < d"
  shows "calc_shear_strength f_c bw d 0 Ag (Some 0) lam ph =
     Inr \<lparr>Vc = min (max (2 * lam * sqrt f_c * bw * d) 0) (5 * lam * sqrt f_c * bw * d),
          Vn = (case ph of None \<Rightarrow> 0.75 | Some p \<Rightarrow> p)
               * min (max (2 * lam * sqrt f_c * bw * d) 0) (5 * lam * sqrt f_c * bw * d),
          phi = (case ph of None \<Rightarrow> 0.75 | Some p \<Rightarrow> p),
          lambda_s = min (sqrt (2 / (1 + d / 10))) 1\<rparr>"
proof -
  have f: "0 \<le> f_c" using assms by simp
  have nz: "bw * d \<noteq> 0" using assms by simp
  have "Vc_table f_c bw d (Some 0) lam (min (sqrt (2 / (1 + d / 10))) 1) =
      Inr (PFloat (max (2 * lam * sqrt f_c * bw * d) 0))"
    using Vc_with_min_value [OF f nz, of 0 lam] by (simp add: Vc_table_def)
  from calc_shear_strength_value [OF size_effect_factor_pos [OF assms(3)] this f, of 0 Ag ph]
  show ?thesis by (simp add: Nu_term_zero)
qed

text \<open>
  C10, as the claim has it: for all positive \<open>f_c\<close>, \<open>bw\<close>, \<open>d\<close> the call without
  \<open>Av_min\<close> and with \<open>Nu = 0\<close> returns \<open>Vc = 0\<close>. With \<open>lambda_concrete = - 1\<close> the
  ceiling is negative and the clamp returns it: \<open>Vc = - 100\<close>.
\<close>

theorem omitted_Av_min_negative_lambda:
  "calc_shear_strength 4 1 10 0 None None (- 1) None =
     Inr \<lparr>Vc = - 100, Vn = - 75, phi = 3 / 4, lambda_s = 1\<rparr>"
proof -
  have "(0::real) < 4" "(0::real) < 1" "(0::real) < 10" by simp_all
  from calc_without_Av_min [OF this, of None "- 1" None] show ?thesis by simp
qed

text \<open>
  C10, amended. For all positive \<open>f_c\<close>, \<open>bw\<close>, \<open>d\<close> and \<open>lambda_concrete \<ge> 0\<close>: with
  \<open>Nu = 0\<close>, the call without \<open>Av_min\<close> returns \<open>Vc = 0\<close> and \<open>Vn = 0\<close>, the call with
  \<open>Av_min = 0\<close> returns \<open>Vc = 2 * lambda_concrete * sqrt f_c * bw * d\<close>. The two results
  differ exactly when \<open>lambda_concrete > 0\<close>.
\<close>

theorem omitted_and_zero_Av_min:
  assumes "0 < f_c" "0 < bw" "0 < d"
  shows "(0 \<le> lam \<longrightarrow>
           calc_shear_strength f_c bw d 0 Ag None lam ph =
             Inr \<lparr>Vc = 0, Vn = 0, phi = (case ph of None \<Rightarrow> 0.75 | Some p \<Rightarrow> p),
                  lambda_s = min (sqrt (2 / (1 + d / 10))) 1\<rparr> \<and>
           calc_shear_strength f_c bw d 0 Ag (Some 0) lam ph =
             Inr \<lparr>Vc = 2 * lam * sqrt f_c * bw * d,
                  Vn = (case ph of None \<Rightarrow> 0.75 | Some p \<Rightarrow> p) * (2 * lam * sqrt f_c * bw * d),
                  phi = (case ph of None \<Rightarrow> 0.75 | Some p \<Rightarrow> p),
                  lambda_s = min (sqrt (2 / (1 + d / 10))) 1\<rparr>) \<and>
         (calc_shear_strength f_c bw d 0 Ag None lam ph
            \<noteq> calc_shear_strength f_c bw d 0 Ag (Some 0) lam ph \<longleftrightarrow> 0 < lam)"
proof -
  define X where "X = lam * sqrt f_c * bw * d"
  have K: "0 < sqrt f_c * bw * d" using assms by simp
  have K': "0 \<le> sqrt f_c * bw * d" using K by (rule less_imp_le)
  have X: "X = lam * (sqrt f_c * bw * d)" by (simp add: X_def)
  have e2: "2 * lam * sqrt f_c * bw * d = 2 * X"
    and e5: "5 * lam * sqrt f_c * bw * d = 5 * X"
    by (simp_all add: X_def)
  have pos: "min 0 (5 * X) = 0 \<and> min (max (2 * X) 0) (5 * X) = 2 * X"
    if "0 \<le> lam"
  proof -
    have "0 \<le> X" unfolding X by (rule mult_nonneg_nonneg [OF that K'])
    then show ?thesis by (simp add: min_def max_def)
  qed
  have neg: "min 0 (5 * X) = min (max (2 * X) 0) (5 * X)" if "lam \<le> 0"
  proof -
    have "X \<le> 0" unfolding X by (rule mult_nonpos_nonneg [OF that K'])
    then show ?thesis by (simp add: min_def max_def)
  qed
  have ne: "2 * X \<noteq> 0" if "0 < lam"
  proof -
    have "0 < X" unfolding X by (rule mult_pos_pos [OF that K])
    then show ?thesis by simp
  qed
  show ?thesis
  proof (cases "0 \<le> lam")
    case True
    have A: "calc_shear_strength f_c bw d 0 Ag None lam ph =
             Inr \<lparr>Vc = 0, Vn = 0, phi = (case ph of None \<Rightarrow> 0.75 | Some p \<Rightarrow> p),
                  lambda_s = min (sqrt (2 / (1 + d / 10))) 1\<rparr>"
      using pos [OF True] by (simp add: calc_without_Av_min [OF assms] e5)
    have B: "calc_shear_strength f_c bw d 0 Ag (Some 0) lam ph =
             Inr \<lparr>Vc = 2 * X,
                  Vn = (case ph of None \<Rightarrow> 0.75 | Some p \<Rightarrow> p) * (2 * X),
                  phi = (case ph of None \<Rightarrow> 0.75 | Some p \<Rightarrow> p),
                  lambda_s = min (sqrt (2 / (1 + d / 10))) 1\<rparr>"
      using pos [OF True] by (simp add: calc_zero_Av_min [OF assms] e2 e5)
    have C: "calc_shear_strength f_c bw d 0 Ag None lam ph
            \<noteq> calc_shear_strength f_c bw d 0 Ag (Some 0) lam ph \<longleftrightarrow> 0 < lam"
    proof (cases "0 < lam")
      case True
      then have "(0::real) \<noteq> 2 * X" using ne by simp
      with True show ?thesis unfolding A B by simp
    next
      case False
      with \<open>0 \<le> lam\<close> have "lam = 0" by simp
      then have "X = 0" by (simp add: X_def)
      with False show ?thesis unfolding A B by simp
    qed
    show ?thesis unfolding e2 by (intro conjI impI A B C)
  next
    case False
    then have "lam \<le> 0" by simp
    have "calc_shear_strength f_c bw d 0 Ag None lam ph =
        calc_shear_strength f_c bw d 0 Ag (Some 0) lam ph"
      unfolding calc_without_Av_min [OF assms] calc_zero_Av_min [OF assms] e2 e5
      by (simp only: neg [OF \<open>lam \<le> 0\<close>])
    with False show ?thesis by simp
  qed
qed

theorem omitted_and_zero_Av_min_witness:
  "(0::real) < 4 \<and> (0::real) < 1 \<and> (0::real) < 10 \<and>
   calc_shear_strength 4 1 10 0 None None 1 None =
     Inr \<lparr>Vc = 0, Vn = 0, phi = 3 / 4, lambda_s = 1\<rparr> \<and>
   calc_shear_strength 4 1 10 0 None (Some 0) 1 None =
     Inr \<lparr>Vc = 40, Vn = 30, phi = 3 / 4, lambda_s = 1\<rparr> \<and>
   calc_shear_strength 4 1 10 0 None None 1 None
     \<noteq> calc_shear_strength 4 1 10 0 None (Some 0) 1 None"
proof -
  have h: "(0::real) < 4" "(0::real) < 1" "(0::real) < 10" by simp_all
  note t = omitted_and_zero_Av_min [OF h, of 1 None None]
  have l: "(0::real) \<le> 1" "(0::real) < 1" by simp_all
  have a: "calc_shear_strength 4 1 10 0 None None 1 None =
     Inr \<lparr>Vc = 0, Vn = 0, phi = 3 / 4, lambda_s = 1\<rparr>"
    using t l by simp
  have b: "calc_shear_strength 4 1 10 0 None (Some 0) 1 None =
     Inr \<lparr>Vc = 40, Vn = 30, phi = 3 / 4, lambda_s = 1\<rparr>"
    using t l by simp
  have c: "calc_shear_strength 4 1 10 0 None None 1 None
     \<noteq> calc_shear_strength 4 1 10 0 None (Some 0) 1 None"
    using t l by blast
  show ?thesis using a b c by simp
qed

section \<open>Overrides of the derived properties of the concrete facade\<close>

lemma get_Ec_stored: "attr_Ec s = Some v \<Longrightarrow> get_Ec s = (Inr v, s)"
  by (simp add: get_Ec_def)

lemma get_fct_stored: "attr_fct s = Some v \<Longrightarrow> get_fct prim s = (Inr v, s)"
  by (simp add: get_fct_def)

lemma get_eps_cu_stored: "attr_eps_cu s = Some v \<Longrightarrow> v \<noteq> 0 \<Longrightarrow> get_eps_cu prim s = (Inr v, s)"
  by (simp add: get_eps_cu_def truthy_def)

lemma get_eps_cu_falsy:
  "\<not> truthy (attr_eps_cu s) \<Longrightarrow>
   get_eps_cu prim s =
     (case prim (attr_fc s) of
        Inl e \<Rightarrow> (Inl e, s)
      | Inr v \<Rightarrow> (Inr v, s\<lparr>attr_eps_cu := Some v\<rparr>))"
  by (simp add: get_eps_cu_def)

text \<open>
  C6, as the claim has it: an override of any of the three properties stores the
  absolute value. The setter of \<open>eps_cu\<close> stores the value as it is: after an override
  with \<open>- 3 / 1000\<close> the read returns \<open>- 3 / 1000\<close>.
\<close>

theorem eps_cu_override_keeps_sign:
  "fst (get_eps_cu missing_primitive (set_eps_cu (- 3 / 1000) (fresh_facade (Some 4000))))
     = Inr (- 3 / 1000) \<and>
   fst (get_eps_cu missing_primitive (set_eps_cu (- 3 / 1000) (fresh_facade (Some 4000))))
     \<noteq> Inr \<bar>- 3 / 1000\<bar>"
  by (simp add: get_eps_cu_def set_eps_cu_def truthy_def fresh_facade_def)

text \<open>
  C6, amended. An override of \<open>Ec\<close> or of \<open>fct\<close> with \<open>v\<close> stores \<open>\<bar>v\<bar>\<close>: the read
  that follows returns \<open>\<bar>v\<bar>\<close>, which is \<open>- v\<close> for a negative \<open>v\<close>, and leaves the
  object as it is. An override of \<open>eps_cu\<close> with \<open>v \<noteq> 0\<close> stores \<open>v\<close> itself: the read
  that follows returns \<open>v\<close>, also for a negative \<open>v\<close>, and leaves the object as it is.
\<close>

theorem override_stored_value:
  "get_Ec (set_Ec v s) = (Inr \<bar>v\<bar>, set_Ec v s) \<and>
   get_fct prim (set_fct v s) = (Inr \<bar>v\<bar>, set_fct v s) \<and>
   (v < 0 \<longrightarrow> fst (get_Ec (set_Ec v s)) = Inr (- v) \<and>
      fst (get_fct prim (set_fct v s)) = Inr (- v)) \<and>
   (v \<noteq> 0 \<longrightarrow> get_eps_cu prim (set_eps_cu v s) = (Inr v, set_eps_cu v s))"
  by (simp add: get_Ec_stored get_fct_stored get_eps_cu_stored
        set_Ec_def set_fct_def set_eps_cu_def)

theorem override_stored_value_witness:
  "get_Ec (set_Ec (- 5000000) (fresh_facade (Some 4000))) =
     (Inr 5000000, set_Ec (- 5000000) (fresh_facade (Some 4000))) \<and>
   get_fct missing_primitive (set_fct (- 400) (fresh_facade (Some 4000))) =
     (Inr 400, set_fct (- 400) (fresh_facade (Some 4000))) \<and>
   (- 3 / 1000 :: real) \<noteq> 0 \<and>
   get_eps_cu missing_primitive (set_eps_cu (- 3 / 1000) (fresh_facade (Some 4000))) =
     (Inr (- 3 / 1000), set_eps_cu (- 3 / 1000) (fresh_facade (Some 4000)))"
  using override_stored_value [of "- 5000000" "fresh_facade (Some 4000)" missing_primitive]
    override_stored_value [of "- 400" "fresh_facade (Some 4000)" missing_primitive]
    override_stored_value [of "- 3 / 1000" "fresh_facade (Some 4000)" missing_primitive]
  by simp

text \<open>
  C5. After an explicit override every read is to return the override and never to
  compute from \<open>fc\<close>. The getters of \<open>Ec\<close> and \<open>fct\<close> test for \<^verbatim>\<open>None\<close> and do so.
  The getter of \<open>eps_cu\<close> tests for truthiness: after the override \<open>eps_cu = 0\<close> the
  read calls the primitive, and its outcome is the outcome of the primitive. With the
  package as it stands that is \<^verbatim>\<open>AttributeError\<close>.
\<close>

theorem eps_cu_zero_override_recomputed:
  "get_eps_cu prim (set_eps_cu 0 s) =
     (case prim (attr_fc s) of
        Inl e \<Rightarrow> (Inl e, set_eps_cu 0 s)
      | Inr v \<Rightarrow> (Inr v, set_eps_cu v s)) \<and>
   fst (get_eps_cu missing_primitive (set_eps_cu 0 (fresh_facade (Some 4000))))
     = Inl AttributeError \<and>
   fst (get_eps_cu missing_primitive (set_eps_cu 0 (fresh_facade (Some 4000)))) \<noteq> Inr 0"
  by (simp add: get_eps_cu_def set_eps_cu_def truthy_def fresh_facade_def missing_primitive_def
        split: sum.splits)

end
